theory Spec2Isabelle
  imports Main "HOL-Library.Word" "HOL-Library.Log_Nat" "HOL-Library.Multiset"
begin

section \<open>Strings and numbers of the host language\<close>

text \<open>
  A string of the program is a sequence of 16-bit code units. Literals of the source are
  written with \<open>str\<close>, which maps every character of an ASCII literal to its code unit;
  the four emoji of the source are given by their surrogate pairs.
\<close>

type_synonym code_unit = "16 word"
type_synonym jsstring = "code_unit list"

definition str :: "string \<Rightarrow> jsstring" where
  "str s = map of_char s"

text \<open>
  White space as \<open>trim\<close> and \<open>parseFloat\<close> skip it: the WhiteSpace and LineTerminator
  code points of the language (TAB, LF, VT, FF, CR, SP, NBSP, the Unicode space
  separators, LS, PS and the byte order mark).
\<close>

definition is_white_space :: "code_unit \<Rightarrow> bool" where
  "is_white_space c \<longleftrightarrow>
     c = 0x09 \<or> c = 0x0A \<or> c = 0x0B \<or> c = 0x0C \<or> c = 0x0D \<or> c = 0x20 \<or> c = 0xA0 \<or>
     c = 0x1680 \<or> (0x2000 \<le> c \<and> c \<le> 0x200A) \<or> c = 0x2028 \<or> c = 0x2029 \<or>
     c = 0x202F \<or> c = 0x205F \<or> c = 0x3000 \<or> c = 0xFEFF"

definition trim :: "jsstring \<Rightarrow> jsstring" where
  "trim s = rev (dropWhile is_white_space (rev (dropWhile is_white_space s)))"

definition is_digit :: "code_unit \<Rightarrow> bool" where
  "is_digit c \<longleftrightarrow> 0x30 \<le> c \<and> c \<le> 0x39"

definition digit_val :: "code_unit \<Rightarrow> int" where
  "digit_val c = uint c - 48"

text \<open>The mathematical value of a sequence of decimal digits, most significant first.\<close>

definition digits_val :: "jsstring \<Rightarrow> int" where
  "digits_val ds = foldl (\<lambda>n c. 10 * n + digit_val c) 0 ds"

text \<open>
  A Number of the program: an IEEE 754 binary64 value. The program only compares numbers
  (\<open><\<close> and \<open>>=\<close>), so a finite value is kept as the rational it denotes and the two
  zeros are not told apart.
\<close>

datatype number = NaN | NegInf | Fin rat | PosInf

text \<open>\<open>ilog2 x\<close> is the integer \<open>e\<close> with \<open>2 ^ e \<le> x < 2 ^ (e + 1)\<close>, for \<open>x > 0\<close>.\<close>

definition ilog2 :: "rat \<Rightarrow> int" where
  "ilog2 x = (if 1 \<le> x then bitlen \<lfloor>x\<rfloor> - 1 else - bitlen (\<lceil>1 / x\<rceil> - 1))"

definition round_half_even :: "rat \<Rightarrow> int" where
  "round_half_even q =
     (let f = \<lfloor>q\<rfloor>; r = q - of_int f
      in if r < 1 / 2 then f else if 1 / 2 < r then f + 1
         else if even f then f else f + 1)"

text \<open>
  Rounding of a non-negative rational to binary64, to nearest with ties to even: 53
  significant bits, least exponent -1022 (below it the spacing stays \<open>2 ^ -1074\<close>), and
  infinity from \<open>2 ^ 1024\<close> on.
\<close>

definition round_binary64 :: "rat \<Rightarrow> number" where
  "round_binary64 x =
     (if x = 0 then Fin 0
      else let e = max (ilog2 x) (- 1022);
               u = 2 powi (e - 52);
               y = of_int (round_half_even (x / u)) * u
           in if 2 powi 1024 \<le> y then PosInf else Fin y)"

fun negate :: "number \<Rightarrow> number" where
  "negate NaN = NaN"
| "negate NegInf = PosInf"
| "negate (Fin x) = Fin (- x)"
| "negate PosInf = NegInf"

text \<open>The comparisons \<open><\<close> and \<open>>=\<close> of the language: false as soon as one side is NaN.\<close>

fun num_less :: "number \<Rightarrow> number \<Rightarrow> bool" where
  "num_less NaN _ = False"
| "num_less _ NaN = False"
| "num_less PosInf _ = False"
| "num_less _ NegInf = False"
| "num_less NegInf _ = True"
| "num_less _ PosInf = True"
| "num_less (Fin x) (Fin y) = (x < y)"

fun num_ge :: "number \<Rightarrow> number \<Rightarrow> bool" where
  "num_ge NaN _ = False"
| "num_ge _ NaN = False"
| "num_ge a b = (\<not> num_less a b)"

subsection \<open>parseFloat\<close>

text \<open>
  \<open>parseFloat\<close> skips leading white space, then reads the longest prefix that is a
  StrDecimalLiteral: an optional sign, then \<open>Infinity\<close> or decimal digits with an optional
  fraction and an optional exponent; what follows the prefix is ignored. With no such
  prefix the result is NaN.
\<close>

text \<open>The exponent part at the head of a string: its value and nothing when there is none.\<close>

definition exponent_part :: "jsstring \<Rightarrow> int" where
  "exponent_part s =
     (case s of
        [] \<Rightarrow> 0
      | c # r \<Rightarrow>
          if c = 0x65 \<or> c = 0x45 then
            (case r of
               [] \<Rightarrow> 0
             | d # r' \<Rightarrow>
                 if d = 0x2B then
                   (if takeWhile is_digit r' = [] then 0
                    else digits_val (takeWhile is_digit r'))
                 else if d = 0x2D then
                   (if takeWhile is_digit r' = [] then 0
                    else - digits_val (takeWhile is_digit r'))
                 else if takeWhile is_digit r = [] then 0
                 else digits_val (takeWhile is_digit r))
          else 0)"

text \<open>The unsigned literal at the head of a string, as the exact rational it denotes.\<close>

definition unsigned_literal :: "jsstring \<Rightarrow> rat option" where
  "unsigned_literal s =
     (let ip = takeWhile is_digit s; r = dropWhile is_digit s
      in case r of
           c # r' \<Rightarrow>
             if c = 0x2E then
               (let fp = takeWhile is_digit r'; r'' = dropWhile is_digit r'
                in if ip = [] \<and> fp = [] then None
                   else Some (of_int (digits_val (ip @ fp)) *
                              10 powi (exponent_part r'' - int (length fp))))
             else if ip = [] then None
             else Some (of_int (digits_val ip) * 10 powi (exponent_part r))
         | [] \<Rightarrow> if ip = [] then None else Some (of_int (digits_val ip)))"

definition unsigned_number :: "jsstring \<Rightarrow> number" where
  "unsigned_number s =
     (if take 8 s = str ''Infinity'' then PosInf
      else case unsigned_literal s of None \<Rightarrow> NaN | Some x \<Rightarrow> round_binary64 x)"

definition parseFloat :: "jsstring \<Rightarrow> number" where
  "parseFloat s =
     (case dropWhile is_white_space s of
        [] \<Rightarrow> NaN
      | c # r \<Rightarrow>
          if c = 0x2B then unsigned_number r
          else if c = 0x2D then negate (unsigned_number r)
          else unsigned_number (c # r))"

section \<open>Magnitude classification\<close>

record magnitude_info =
  classification :: jsstring
  color :: jsstring
  bgColor :: jsstring
  borderColor :: jsstring
  icon :: jsstring

definition getMagnitudeInfo :: "bool \<Rightarrow> jsstring \<Rightarrow> magnitude_info" where
  "getMagnitudeInfo darkMode magnitude =
     (let mag = parseFloat magnitude
      in if num_less mag (Fin 5) then
           \<lparr> classification = str ''Gempa Ringan'',
             color = (if darkMode then str ''text-green-400'' else str ''text-green-600''),
             bgColor = (if darkMode then str ''bg-green-900/20'' else str ''bg-green-50''),
             borderColor = (if darkMode then str ''border-green-700'' else str ''border-green-200''),
             icon = [0xD83D, 0xDFE2] \<rparr>
         else if num_less mag (Fin 6) then
           \<lparr> classification = str ''Gempa Sedang'',
             color = (if darkMode then str ''text-yellow-400'' else str ''text-yellow-600''),
             bgColor = (if darkMode then str ''bg-yellow-900/20'' else str ''bg-yellow-50''),
             borderColor = (if darkMode then str ''border-yellow-700'' else str ''border-yellow-200''),
             icon = [0xD83D, 0xDFE1] \<rparr>
         else
           \<lparr> classification = str ''Gempa Kuat'',
             color = (if darkMode then str ''text-red-400'' else str ''text-red-600''),
             bgColor = (if darkMode then str ''bg-red-900/20'' else str ''bg-red-50''),
             borderColor = (if darkMode then str ''border-red-700'' else str ''border-red-200''),
             icon = [0xD83D, 0xDD34] \<rparr>)"

section \<open>The data model\<close>

record EarthquakeData =
  Tanggal :: jsstring
  Jam :: jsstring
  DateTime :: jsstring
  coordinates :: jsstring
  Lintang :: jsstring
  Bujur :: jsstring
  Magnitude :: jsstring
  Kedalaman :: jsstring
  Wilayah :: jsstring
  Potensi :: jsstring
  Dirasakan :: jsstring
  Shakemap :: jsstring

text \<open>
  An entry of a list feed. Its fields carry the names of the interface; where a name is
  also a field of \<open>EarthquakeData\<close> it is written qualified, \<open>RecentEarthquake.DateTime\<close>.
\<close>

record RecentEarthquake =
  Tanggal :: jsstring
  Jam :: jsstring
  DateTime :: jsstring
  Coordinates :: jsstring
  Lintang :: jsstring
  Bujur :: jsstring
  Magnitude :: jsstring
  Kedalaman :: jsstring
  Wilayah :: jsstring
  Potensi :: jsstring
  Dirasakan :: "jsstring option"

text \<open>
  The document of a list feed, \<open>{ Infogempa: { gempa: [...] } }\<close>. The program reads it
  with optional chaining, so either level may be missing.
\<close>

record Infogempa_object =
  gempa :: "RecentEarthquake list option"

record RecentEarthquakeData =
  Infogempa :: "Infogempa_object option"

section \<open>Parsing the latest event\<close>

text \<open>
  The document that the platform's XML parser returns for the response text, as a tree of
  elements and character data. The parser never raises: for text that is not well-formed
  it returns a document that reports the error.
\<close>

datatype node = Element jsstring "node list" | Text jsstring

text \<open>
  The first element with the given name among the nodes and their descendants, in
  document order: \<open>querySelector\<close> with a type selector.
\<close>

fun find_first :: "jsstring \<Rightarrow> node list \<Rightarrow> node option" where
  "find_first t [] = None"
| "find_first t (Text d # ns) = find_first t ns"
| "find_first t (Element n cs # ns) =
     (if n = t then Some (Element n cs)
      else case find_first t cs of Some e \<Rightarrow> Some e | None \<Rightarrow> find_first t ns)"

fun children :: "node \<Rightarrow> node list" where
  "children (Element n cs) = cs"
| "children (Text d) = []"

text \<open>On a document the search starts at the root; on an element, below it.\<close>

definition document_querySelector :: "node \<Rightarrow> jsstring \<Rightarrow> node option" where
  "document_querySelector xmlDoc t = find_first t [xmlDoc]"

definition element_querySelector :: "node \<Rightarrow> jsstring \<Rightarrow> node option" where
  "element_querySelector e t = find_first t (children e)"

fun textContent :: "node \<Rightarrow> jsstring" where
  "textContent (Text d) = d"
| "textContent (Element n cs) = concat (map textContent cs)"

definition getData :: "node \<Rightarrow> jsstring \<Rightarrow> jsstring" where
  "getData gempaElement tagName =
     (case element_querySelector gempaElement tagName of
        None \<Rightarrow> []
      | Some element \<Rightarrow> trim (textContent element))"

text \<open>
  \<open>parseXMLData\<close>, from the parsed document on. A document with no \<open>gempa\<close> element
  makes the function raise inside its own \<open>try\<close>; its \<open>catch\<close> logs the error and
  returns \<open>null\<close>, here \<open>None\<close>.
\<close>

definition parseXMLData :: "node \<Rightarrow> EarthquakeData option" where
  "parseXMLData xmlDoc =
     (case document_querySelector xmlDoc (str ''gempa'') of
        None \<Rightarrow> None
      | Some gempaElement \<Rightarrow>
          Some \<lparr> EarthquakeData.Tanggal = getData gempaElement (str ''Tanggal''),
                 EarthquakeData.Jam = getData gempaElement (str ''Jam''),
                 EarthquakeData.DateTime = getData gempaElement (str ''DateTime''),
                 coordinates = getData gempaElement (str ''coordinates''),
                 EarthquakeData.Lintang = getData gempaElement (str ''Lintang''),
                 EarthquakeData.Bujur = getData gempaElement (str ''Bujur''),
                 EarthquakeData.Magnitude = getData gempaElement (str ''Magnitude''),
                 EarthquakeData.Kedalaman = getData gempaElement (str ''Kedalaman''),
                 EarthquakeData.Wilayah = getData gempaElement (str ''Wilayah''),
                 EarthquakeData.Potensi = getData gempaElement (str ''Potensi''),
                 EarthquakeData.Dirasakan = getData gempaElement (str ''Dirasakan''),
                 Shakemap = getData gempaElement (str ''Shakemap'') \<rparr>)"

section \<open>The change signature\<close>

text \<open>\<open>Array.prototype.join\<close> on an array of strings.\<close>

fun join :: "jsstring \<Rightarrow> jsstring list \<Rightarrow> jsstring" where
  "join sep [] = []"
| "join sep [x] = x"
| "join sep (x # y # ys) = x @ sep @ join sep (y # ys)"

subsection \<open>JSON.stringify on an object of three strings\<close>

definition is_high_surrogate :: "code_unit \<Rightarrow> bool" where
  "is_high_surrogate c \<longleftrightarrow> 0xD800 \<le> c \<and> c \<le> 0xDBFF"

definition is_low_surrogate :: "code_unit \<Rightarrow> bool" where
  "is_low_surrogate c \<longleftrightarrow> 0xDC00 \<le> c \<and> c \<le> 0xDFFF"

definition hex_digit :: "nat \<Rightarrow> code_unit" where
  "hex_digit n = of_nat (if n < 10 then 48 + n else 87 + n)"

text \<open>\<open>\uXXXX\<close> with four lower-case hexadecimal digits.\<close>

definition unicode_escape :: "code_unit \<Rightarrow> jsstring" where
  "unicode_escape c =
     [0x5C, 0x75, hex_digit (unat c div 4096), hex_digit (unat c div 256 mod 16),
      hex_digit (unat c div 16 mod 16), hex_digit (unat c mod 16)]"

text \<open>A code unit that is not a surrogate, as QuoteJSONString writes it.\<close>

definition quote_unit :: "code_unit \<Rightarrow> jsstring" where
  "quote_unit c =
     (if c = 0x08 then [0x5C, 0x62]
      else if c = 0x09 then [0x5C, 0x74]
      else if c = 0x0A then [0x5C, 0x6E]
      else if c = 0x0C then [0x5C, 0x66]
      else if c = 0x0D then [0x5C, 0x72]
      else if c = 0x22 then [0x5C, 0x22]
      else if c = 0x5C then [0x5C, 0x5C]
      else if c < 0x20 then unicode_escape c
      else [c])"

text \<open>
  The string is read by code points: a high surrogate followed by a low one is one code
  point and is copied; a surrogate on its own is written as an escape.
\<close>

fun quote_units :: "jsstring \<Rightarrow> jsstring" where
  "quote_units [] = []"
| "quote_units [c] =
     (if is_high_surrogate c \<or> is_low_surrogate c then unicode_escape c else quote_unit c)"
| "quote_units (c # d # r) =
     (if is_high_surrogate c then
        (if is_low_surrogate d then c # d # quote_units r
         else unicode_escape c @ quote_units (d # r))
      else if is_low_surrogate c then unicode_escape c @ quote_units (d # r)
      else quote_unit c @ quote_units (d # r))"

definition QuoteJSONString :: "jsstring \<Rightarrow> jsstring" where
  "QuoteJSONString s = 0x22 # quote_units s @ [0x22]"

record hash_data =
  latest :: jsstring
  recent :: jsstring
  felt :: jsstring

definition json_member :: "string \<Rightarrow> jsstring \<Rightarrow> jsstring" where
  "json_member k v = QuoteJSONString (str k) @ [0x3A] @ QuoteJSONString v"

definition JSON_stringify :: "hash_data \<Rightarrow> jsstring" where
  "JSON_stringify d =
     [0x7B] @ json_member ''latest'' (latest d) @ [0x2C] @ json_member ''recent'' (recent d) @
     [0x2C] @ json_member ''felt'' (felt d) @ [0x7D]"

subsection \<open>btoa\<close>

datatype error = FetchRejected | HttpErrorStatus | InvalidCharacterError

text \<open>The base64 alphabet: \<open>A\<close> to \<open>Z\<close>, \<open>a\<close> to \<open>z\<close>, \<open>0\<close> to \<open>9\<close>, \<open>+\<close> and \<open>/\<close>.\<close>

definition base64_char :: "nat \<Rightarrow> code_unit" where
  "base64_char n =
     of_nat (if n < 26 then 65 + n else if n < 52 then 71 + n
             else if n < 62 then n - 4 else if n = 62 then 43 else 47)"

fun base64 :: "nat list \<Rightarrow> jsstring" where
  "base64 [] = []"
| "base64 [a] = [base64_char (a div 4), base64_char (a mod 4 * 16), 0x3D, 0x3D]"
| "base64 [a, b] =
     [base64_char (a div 4), base64_char (a mod 4 * 16 + b div 16),
      base64_char (b mod 16 * 4), 0x3D]"
| "base64 (a # b # c # r) =
     [base64_char (a div 4), base64_char (a mod 4 * 16 + b div 16),
      base64_char (b mod 16 * 4 + c div 64), base64_char (c mod 64)] @ base64 r"

text \<open>
  \<open>btoa\<close> reads every code unit as one byte and raises InvalidCharacterError when a code
  unit is above \<open>0xFF\<close>.
\<close>

definition btoa :: "jsstring \<Rightarrow> error + jsstring" where
  "btoa s = (if list_all (\<lambda>c. c \<le> 0xFF) s then Inr (base64 (map unat s))
             else Inl InvalidCharacterError)"

definition generateDataHash ::
  "EarthquakeData option \<Rightarrow> RecentEarthquake list \<Rightarrow> RecentEarthquake list \<Rightarrow> error + jsstring"
where
  "generateDataHash latest_event recent_list felt_list =
     (let data = \<lparr> latest = (case latest_event of None \<Rightarrow> [] | Some l \<Rightarrow> EarthquakeData.DateTime l),
                    recent = join [0x2C] (map RecentEarthquake.DateTime recent_list),
                    felt = join [0x2C] (map RecentEarthquake.DateTime felt_list) \<rparr>
      in btoa (JSON_stringify data))"

subsection \<open>Reading a signature back\<close>

text \<open>
  The inverse direction, used only to show that different inputs give different
  signatures: the value of a hexadecimal digit, of an escape, and the string that a quoted
  string stands for together with the text after its closing quote.
\<close>

definition unhex_digit :: "code_unit \<Rightarrow> nat" where
  "unhex_digit h = (if unat h < 58 then unat h - 48 else unat h - 87)"

definition unicode_unescape :: "code_unit \<Rightarrow> code_unit \<Rightarrow> code_unit \<Rightarrow> code_unit \<Rightarrow> code_unit" where
  "unicode_unescape h1 h2 h3 h4 =
     of_nat (4096 * unhex_digit h1 + 256 * unhex_digit h2 + 16 * unhex_digit h3 + unhex_digit h4)"

definition unescape :: "code_unit \<Rightarrow> code_unit" where
  "unescape e =
     (if e = 0x62 then 0x08 else if e = 0x74 then 0x09 else if e = 0x6E then 0x0A
      else if e = 0x66 then 0x0C else if e = 0x72 then 0x0D else e)"

fun read_string :: "jsstring \<Rightarrow> jsstring \<times> jsstring" where
  "read_string [] = ([], [])"
| "read_string (c # cs) =
     (if c = 0x22 then ([], cs)
      else if c = 0x5C then
        (case cs of
           [] \<Rightarrow> ([], [])
         | e # es \<Rightarrow>
             if e = 0x75 then
               (case es of
                  h1 # h2 # h3 # h4 # r \<Rightarrow>
                    (case read_string r of (s, rest) \<Rightarrow> (unicode_unescape h1 h2 h3 h4 # s, rest))
                | _ \<Rightarrow> ([], []))
             else (case read_string es of (s, rest) \<Rightarrow> (unescape e # s, rest)))
      else (case read_string cs of (s, rest) \<Rightarrow> (c # s, rest)))"

text \<open>The code unit of a base64 digit, as a number.\<close>

definition base64_code :: "nat \<Rightarrow> nat" where
  "base64_code n = (if n < 26 then 65 + n else if n < 52 then 71 + n
             else if n < 62 then n - 4 else if n = 62 then 43 else 47)"

section \<open>A refresh cycle\<close>

text \<open>
  What an awaited \<open>fetch\<close> gives: the promise is rejected (no connection), or there is a
  response with its \<open>ok\<close> flag and its body. The body of the latest-event response is the
  document parsed from its text; the body of a list response is what \<open>json()\<close> gives,
  \<open>None\<close> when the text is not JSON and the promise is rejected. (For the JSON text
  \<open>null\<close> the read of \<open>Infogempa\<close> raises in the same \<open>try\<close> block, with the same
  outcome.)
\<close>

datatype 'a fetched = Rejected | Response bool 'a

datatype permission = Granted | Denied | Default

text \<open>\<open>new Notification(title, { body, icon })\<close>.\<close>

datatype notification = Notification jsstring jsstring jsstring

text \<open>
  The reads of one cycle from outside the component: the three responses, the
  notification permission (\<open>None\<close> when the window has no \<open>Notification\<close>) and the
  clock.
\<close>

record cycle_input =
  latestResponse :: "node fetched"
  recentResponse :: "RecentEarthquakeData option fetched"
  feltResponse :: "RecentEarthquakeData option fetched"
  notification_permission :: "permission option"
  now :: nat

text \<open>The state of the component that a cycle reads and writes.\<close>

record app_state =
  latestEarthquake :: "EarthquakeData option"
  recentEarthquakes :: "RecentEarthquake list"
  feltEarthquakes :: "RecentEarthquake list"
  loading :: bool
  error_message :: "jsstring option"
  lastUpdated :: "nat option"
  autoUpdate :: bool
  hasNewData :: bool
  lastDataHash :: jsstring

definition initial_state :: app_state where
  "initial_state =
     \<lparr> latestEarthquake = None, recentEarthquakes = [], feltEarthquakes = [],
       loading = True, error_message = None, lastUpdated = None, autoUpdate = True,
       hasNewData = False, lastDataHash = [] \<rparr>"

text \<open>\<open>data.Infogempa?.gempa?.slice(0, 15) || []\<close>\<close>

definition first_entries :: "RecentEarthquakeData \<Rightarrow> RecentEarthquake list" where
  "first_entries d =
     (case Infogempa d of
        None \<Rightarrow> []
      | Some i \<Rightarrow> (case gempa i of None \<Rightarrow> [] | Some g \<Rightarrow> take 15 g))"

text \<open>
  The \<open>try\<close> block around a list feed: the list stays empty when the fetch is rejected,
  when the status is not a success, and when the body is not JSON.
\<close>

definition fetch_list :: "RecentEarthquakeData option fetched \<Rightarrow> RecentEarthquake list" where
  "fetch_list r =
     (case r of
        Rejected \<Rightarrow> []
      | Response ok b \<Rightarrow>
          if ok then (case b of None \<Rightarrow> [] | Some d \<Rightarrow> first_entries d) else [])"

text \<open>
  A list fetch that fails: the fetch is rejected, the status is not a success, or the
  body is not JSON.
\<close>

definition list_fetch_failed :: "RecentEarthquakeData option fetched \<Rightarrow> bool" where
  "list_fetch_failed r \<longleftrightarrow>
     (case r of Rejected \<Rightarrow> True | Response ok b \<Rightarrow> \<not> ok \<or> b = None)"

definition quake_notification :: "EarthquakeData \<Rightarrow> notification" where
  "quake_notification l =
     Notification ([0xD83D, 0xDEA8] @ str '' Gempa Kuat Terdeteksi!'')
       (str ''M'' @ EarthquakeData.Magnitude l @ str '' - '' @ EarthquakeData.Wilayah l)
       (str ''/favicon.ico'')"

text \<open>
  The alert for a strong earthquake: for a latest event whose magnitude parses to a number
  that is at least 6.0, and only with the permission granted.
\<close>

definition strong_quake_alert :: "permission option \<Rightarrow> EarthquakeData option \<Rightarrow> notification list" where
  "strong_quake_alert perm parsedLatest =
     (case parsedLatest of
        None \<Rightarrow> []
      | Some l \<Rightarrow>
          if num_ge (parseFloat (EarthquakeData.Magnitude l)) (Fin 6) then
            (if perm = Some Granted then [quake_notification l] else [])
          else [])"

text \<open>
  The body of the outer \<open>try\<close>: \<open>s\<close> is the state the callback closed over, \<open>s0\<close> the state
  the writes go to. An exception leaves the block with no write done.
\<close>

definition try_block ::
  "bool \<Rightarrow> cycle_input \<Rightarrow> app_state \<Rightarrow> app_state \<Rightarrow> error + app_state \<times> notification list"
where
  "try_block silent env s s0 =
     (case latestResponse env of
        Rejected \<Rightarrow> Inl FetchRejected
      | Response ok xmlDoc \<Rightarrow>
          if \<not> ok then Inl HttpErrorStatus
          else
            let parsedLatest = parseXMLData xmlDoc;
                newRecent = fetch_list (recentResponse env);
                newFelt = fetch_list (feltResponse env)
            in (case generateDataHash parsedLatest newRecent newFelt of
                  Inl e \<Rightarrow> Inl e
                | Inr newHash \<Rightarrow>
                   let changed = (lastDataHash s \<noteq> [] \<and> newHash \<noteq> lastDataHash s \<and> silent);
                       s1 = (if changed then s0\<lparr>hasNewData := True\<rparr> else s0);
                       ns = (if changed
                             then strong_quake_alert (notification_permission env) parsedLatest
                             else []);
                       s2 = (case parsedLatest of
                               None \<Rightarrow> s1
                             | Some l \<Rightarrow> s1\<lparr>latestEarthquake := Some l\<rparr>);
                       s3 = s2\<lparr>recentEarthquakes := newRecent, feltEarthquakes := newFelt,
                               lastDataHash := newHash, lastUpdated := Some (now env)\<rparr>;
                       s4 = (if hasNewData s \<and> \<not> silent then s3\<lparr>hasNewData := False\<rparr> else s3)
                   in Inr (s4, ns)))"

text \<open>The message that \<open>setError\<close> is given in the outer \<open>catch\<close>.\<close>

definition failure_message :: jsstring where
  "failure_message = str ''Gagal mengambil data gempa. Silakan coba lagi.''"

text \<open>
  \<open>fetchAllEarthquakeData(silent)\<close>: the state after the cycle and the notifications it
  has shown.
\<close>

definition fetchAllEarthquakeData ::
  "bool \<Rightarrow> cycle_input \<Rightarrow> app_state \<Rightarrow> app_state \<times> notification list"
where
  "fetchAllEarthquakeData silent env s =
     (let s0 = (if \<not> silent then s\<lparr>loading := True, error_message := None\<rparr> else s);
          (s1, ns) =
            (case try_block silent env s s0 of
               Inl e \<Rightarrow>
                 ((if \<not> silent
                   then s0\<lparr>error_message := Some failure_message\<rparr>
                   else s0), [])
             | Inr (s', ns') \<Rightarrow> (s', ns'))
      in ((if \<not> silent then s1\<lparr>loading := False\<rparr> else s1), ns))"

section \<open>The effect that owns the timer\<close>

text \<open>
  What the effect and its cleanup do, as the calls they make in order. The framework runs
  the effect after the first render and again after every render in which \<open>autoUpdate\<close>
  or the callback has changed, the cleanup of the previous run first.
\<close>

datatype action =
    CallFetch bool
  | SetInterval nat
  | ClearInterval
  | AddListeners
  | RemoveListeners

definition effect_body :: "bool \<Rightarrow> action list" where
  "effect_body au = [CallFetch False] @ (if au then [SetInterval 30000] else []) @ [AddListeners]"

definition effect_cleanup :: "bool \<Rightarrow> action list" where
  "effect_cleanup au = (if au then [ClearInterval] else []) @ [RemoveListeners]"

text \<open>The button: \<open>setAutoUpdate(!autoUpdate)\<close>, then the cleanup and the effect again.\<close>

definition toggle_autoUpdate :: "bool \<Rightarrow> bool \<times> action list" where
  "toggle_autoUpdate au = (\<not> au, effect_cleanup au @ effect_body (\<not> au))"

text \<open>The pending interval timer after a sequence of calls, by its period.\<close>

fun timer_after :: "nat option \<Rightarrow> action list \<Rightarrow> nat option" where
  "timer_after t [] = t"
| "timer_after t (SetInterval p # as) = timer_after (Some p) as"
| "timer_after t (ClearInterval # as) = timer_after None as"
| "timer_after t (a # as) = timer_after t as"

text \<open>The fetches a sequence of calls starts at once, by their \<open>silent\<close> argument.\<close>

fun fetches_of :: "action list \<Rightarrow> bool list" where
  "fetches_of [] = []"
| "fetches_of (CallFetch b # as) = b # fetches_of as"
| "fetches_of (a # as) = fetches_of as"

text \<open>A tick of the pending timer: \<open>fetchAllEarthquakeData(true)\<close>.\<close>

definition interval_tick :: "nat option \<Rightarrow> action list" where
  "interval_tick t = (case t of None \<Rightarrow> [] | Some p \<Rightarrow> [CallFetch True])"

section \<open>Sample inputs\<close>

definition example_event :: node where
  "example_event =
     Element (str ''Infogempa'')
       [Element (str ''gempa'')
          [Element (str ''DateTime'') [Text (str '' T1 '')],
           Element (str ''Magnitude'') [Text (str ''7.0'')],
           Element (str ''Wilayah'') [Text (str ''Laut Banda'')]]]"

definition example_latest :: EarthquakeData where
  "example_latest =
     \<lparr> EarthquakeData.Tanggal = [], Jam = [], DateTime = str ''T1'', coordinates = [],
       Lintang = [], Bujur = [], Magnitude = str ''7.0'', Kedalaman = [],
       Wilayah = str ''Laut Banda'', Potensi = [], Dirasakan = [], Shakemap = [] \<rparr>"

definition example_no_root :: node where
  "example_no_root = Element (str ''html'') [Element (str ''body'') [Text (str ''Not Found'')]]"

definition example_entry :: "jsstring \<Rightarrow> RecentEarthquake" where
  "example_entry t =
     \<lparr> RecentEarthquake.Tanggal = [], Jam = [], DateTime = t, Coordinates = [], Lintang = [],
       Bujur = [], Magnitude = str ''5.1'', Kedalaman = [], Wilayah = [], Potensi = [],
       Dirasakan = None \<rparr>"

definition example_feed :: "RecentEarthquake list \<Rightarrow> RecentEarthquakeData" where
  "example_feed g = \<lparr> Infogempa = Some \<lparr> gempa = Some g \<rparr> \<rparr>"

text \<open>
  A cycle whose latest-event response carries the given document, whose recent-list
  fetch is rejected and whose felt list has one entry.
\<close>

definition example_input :: "node \<Rightarrow> cycle_input" where
  "example_input xmlDoc =
     \<lparr> latestResponse = Response True xmlDoc,
       recentResponse = Rejected,
       feltResponse = Response True (Some (example_feed [example_entry (str ''T0'')])),
       notification_permission = Some Granted,
       now = 1 \<rparr>"

text \<open>A latest event whose timestamp has a code unit above \<open>0xFF\<close>, the euro sign.\<close>

definition example_euro_event :: node where
  "example_euro_event =
     Element (str ''Infogempa'')
       [Element (str ''gempa'')
          [Element (str ''DateTime'') [Text [0x20AC]],
           Element (str ''Magnitude'') [Text (str ''7.0'')]]]"

definition example_euro_latest :: EarthquakeData where
  "example_euro_latest =
     example_latest\<lparr>EarthquakeData.DateTime := [0x20AC], EarthquakeData.Wilayah := []\<rparr>"

text \<open>
  The signatures of the sample cycle, with the sample event and with no latest event:
  the base64 text of \<open>{"latest":"T1","recent":"","felt":"T0"}\<close> and of
  \<open>{"latest":"","recent":"","felt":"T0"}\<close>.
\<close>

definition example_signature :: jsstring where
  "example_signature = str ''eyJsYXRlc3QiOiJUMSIsInJlY2VudCI6IiIsImZlbHQiOiJUMCJ9''"

definition example_signature_no_latest :: jsstring where
  "example_signature_no_latest = str ''eyJsYXRlc3QiOiIiLCJyZWNlbnQiOiIiLCJmZWx0IjoiVDAifQ==''"

section \<open>Evaluation of the samples\<close>

lemma parseFloat_empty: "parseFloat [] = NaN"
  by (simp add: parseFloat_def)

lemma parseFloat_7: "parseFloat (str ''7.0'') = Fin 7"
  by (simp add: parseFloat_def str_def is_white_space_def unsigned_number_def
      unsigned_literal_def is_digit_def digits_val_def digit_val_def exponent_part_def
      round_binary64_def ilog2_def round_half_even_def Let_def compute_bitlen)

lemma parseXMLData_example: "parseXMLData example_event = Some example_latest"
  by (simp add: parseXMLData_def example_event_def example_latest_def document_querySelector_def
      getData_def element_querySelector_def str_def trim_def is_white_space_def)

lemma parseXMLData_no_root: "parseXMLData example_no_root = None"
  by (simp add: parseXMLData_def example_no_root_def document_querySelector_def str_def)

lemma parseXMLData_None_iff:
  "parseXMLData xmlDoc = None \<longleftrightarrow> document_querySelector xmlDoc (str ''gempa'') = None"
  by (simp add: parseXMLData_def split: option.splits)

lemmas hash_eval_defs = generateDataHash_def btoa_def JSON_stringify_def json_member_def
  QuoteJSONString_def str_def is_high_surrogate_def is_low_surrogate_def quote_unit_def
  base64_char_def example_entry_def example_latest_def

lemma example_hash:
  "generateDataHash (Some example_latest) [] [example_entry (str ''T0'')] = Inr example_signature"
  by (simp add: hash_eval_defs example_signature_def)

lemma example_hash_no_latest:
  "generateDataHash None [] [example_entry (str ''T0'')] = Inr example_signature_no_latest"
  by (simp add: hash_eval_defs example_signature_no_latest_def)

lemma parseXMLData_euro:
  "parseXMLData example_euro_event = Some example_euro_latest"
  by (simp add: parseXMLData_def example_euro_event_def example_latest_def example_euro_latest_def document_querySelector_def
      getData_def element_querySelector_def str_def trim_def is_white_space_def)

lemma example_hash_euro:
  "generateDataHash (Some example_euro_latest) []
     [example_entry (str ''T0'')] = Inl InvalidCharacterError"
  by (simp add: hash_eval_defs example_euro_latest_def)

lemma example_lists:
  "fetch_list (recentResponse (example_input d)) = []"
  "fetch_list (feltResponse (example_input d)) = [example_entry (str ''T0'')]"
  "latestResponse (example_input d) = Response True d"
  "notification_permission (example_input d) = Some Granted"
  by (simp_all add: example_input_def fetch_list_def first_entries_def example_feed_def)

lemma example_signature_neq: "example_signature \<noteq> []" "example_signature \<noteq> str ''S0''"
  "example_signature_no_latest \<noteq> []"
  by (simp_all add: example_signature_def example_signature_no_latest_def str_def)

lemma list_fetch_failed_empty: "list_fetch_failed r \<Longrightarrow> fetch_list r = []"
  by (auto simp: list_fetch_failed_def fetch_list_def split: fetched.splits)

section \<open>The two ways a cycle ends\<close>

text \<open>
  A cycle whose latest-event response is a success and whose signature can be computed
  reaches its writes: this is the state it leaves and these are the alerts it shows.
\<close>

lemma cycle_commit:
  assumes "latestResponse env = Response True xmlDoc"
    and "generateDataHash (parseXMLData xmlDoc) (fetch_list (recentResponse env))
           (fetch_list (feltResponse env)) = Inr h"
  shows "fetchAllEarthquakeData silent env s =
    (s\<lparr> latestEarthquake :=
           (case parseXMLData xmlDoc of None \<Rightarrow> latestEarthquake s | Some l \<Rightarrow> Some l),
        recentEarthquakes := fetch_list (recentResponse env),
        feltEarthquakes := fetch_list (feltResponse env),
        lastDataHash := h,
        lastUpdated := Some (now env),
        hasNewData :=
           (if silent then hasNewData s \<or> (lastDataHash s \<noteq> [] \<and> h \<noteq> lastDataHash s)
            else False),
        loading := (if silent then loading s else False),
        error_message := (if silent then error_message s else None) \<rparr>,
     if silent \<and> lastDataHash s \<noteq> [] \<and> h \<noteq> lastDataHash s
     then strong_quake_alert (notification_permission env) (parseXMLData xmlDoc) else [])"
  using assms
  by (auto simp: fetchAllEarthquakeData_def try_block_def Let_def split: option.splits)

text \<open>Every other cycle is left through the outer \<open>catch\<close>.\<close>

lemma cycle_abort:
  assumes "latestResponse env = Rejected \<or> (\<exists>b. latestResponse env = Response False b) \<or>
     (\<exists>xmlDoc e. latestResponse env = Response True xmlDoc \<and>
        generateDataHash (parseXMLData xmlDoc) (fetch_list (recentResponse env))
          (fetch_list (feltResponse env)) = Inl e)"
  shows "fetchAllEarthquakeData silent env s =
    ((if silent then s else s\<lparr>loading := False, error_message := Some failure_message\<rparr>), [])"
  using assms
  by (auto simp: fetchAllEarthquakeData_def try_block_def Let_def failure_message_def)

section \<open>Different inputs, different signatures\<close>

subsection \<open>base64\<close>

lemma unat_base64_char: "n < 64 \<Longrightarrow> unat (base64_char n) = base64_code n"
proof -
  assume "n < 64"
  then have "base64_code n < 2 ^ LENGTH(16)" by (auto simp: base64_code_def)
  then show ?thesis
    unfolding base64_char_def base64_code_def [symmetric] by (rule of_nat_inverse [OF refl])
qed

lemma base64_char_inj:
  assumes "m < 64" "n < 64" "base64_char m = base64_char n"
  shows "m = n"
proof -
  have "base64_code m = base64_code n"
    using assms unat_base64_char [of m] unat_base64_char [of n] by simp
  then show ?thesis using assms(1,2) by (simp add: base64_code_def split: if_splits)
qed

lemma base64_char_not_pad: "n < 64 \<Longrightarrow> base64_char n \<noteq> 0x3D"
proof
  assume "n < 64" "base64_char n = 0x3D"
  then have "base64_code n = 61" using unat_base64_char [of n] by simp
  then show False using \<open>n < 64\<close> by (simp add: base64_code_def split: if_splits)
qed

lemma split16:
  fixes r q r' q' :: nat
  assumes "q < k" "q' < k" "r * k + q = r' * k + q'"
  shows "r = r' \<and> q = q'"
proof -
  have "(r * k + q) div k = r" "(r' * k + q') div k = r'" using assms(1,2) by simp_all
  then have "r = r'" using assms(3) by simp
  then show ?thesis using assms(3) by simp
qed

lemma sextets:
  fixes a b c :: nat
  assumes "a div 4 = a' div 4" "a mod 4 * 16 + b div 16 = a' mod 4 * 16 + b' div 16"
    "b mod 16 * 4 + c div 64 = b' mod 16 * 4 + c' div 64" "c mod 64 = c' mod 64"
    "b < 256" "b' < 256" "c < 256" "c' < 256"
  shows "a = a' \<and> b = b' \<and> c = c'"
proof -
  have 1: "a mod 4 = a' mod 4 \<and> b div 16 = b' div 16"
    using assms(2,5,6) by (intro split16 [of _ 16]) simp_all
  have 2: "b mod 16 = b' mod 16 \<and> c div 64 = c' div 64"
    using assms(3,7,8) by (intro split16 [of _ 4]) simp_all
  have "a = a'" using assms(1) 1 by (metis div_mult_mod_eq)
  moreover have "b = b'" using 1 2 by (metis div_mult_mod_eq)
  moreover have "c = c'" using assms(4) 2 by (metis div_mult_mod_eq)
  ultimately show ?thesis by simp
qed

lemma sextets2:
  fixes a b :: nat
  assumes "a div 4 = a' div 4" "a mod 4 * 16 + b div 16 = a' mod 4 * 16 + b' div 16"
    "b mod 16 * 4 = b' mod 16 * 4" "b < 256" "b' < 256"
  shows "a = a' \<and> b = b'"
proof -
  have 1: "a mod 4 = a' mod 4 \<and> b div 16 = b' div 16"
    using assms(2,4,5) by (intro split16 [of _ 16]) simp_all
  have "a = a'" using assms(1) 1 by (metis div_mult_mod_eq)
  moreover have "b = b'" using 1 assms(3) by (metis div_mult_mod_eq mult_right_cancel zero_neq_numeral)
  ultimately show ?thesis by simp
qed

lemma sextets1:
  fixes a :: nat
  assumes "a div 4 = a' div 4" "a mod 4 * 16 = a' mod 4 * 16"
  shows "a = a'"
  using assms by (metis div_mult_mod_eq mult_right_cancel zero_neq_numeral)

lemma sextet_bounds:
  fixes a b c :: nat
  shows "a < 256 \<Longrightarrow> a div 4 < 64"
    and "a mod 4 * 16 < 64"
    and "b < 256 \<Longrightarrow> a mod 4 * 16 + b div 16 < 64"
    and "b mod 16 * 4 < 64"
    and "c < 256 \<Longrightarrow> b mod 16 * 4 + c div 64 < 64"
    and "c mod 64 < 64"
proof -
  have m: "a mod 4 < 4" "b mod 16 < 16" by simp_all
  show "a mod 4 * 16 < 64" "b mod 16 * 4 < 64" using m by linarith+
  show "a mod 4 * 16 + b div 16 < 64" if "b < 256"
  proof -
    have "b div 16 < 16" using that by simp
    then show ?thesis using m by linarith
  qed
  show "b mod 16 * 4 + c div 64 < 64" if "c < 256"
  proof -
    have "c div 64 < 4" using that by simp
    then show ?thesis using m by linarith
  qed
  show "a < 256 \<Longrightarrow> a div 4 < 64" "c mod 64 < 64" by simp_all
qed

lemma sextet_eq:
  fixes a b c :: nat
  shows "a < 256 \<Longrightarrow> a' < 256 \<Longrightarrow> base64_char (a div 4) = base64_char (a' div 4) \<Longrightarrow>
      a div 4 = a' div 4"
    and "base64_char (a mod 4 * 16) = base64_char (a' mod 4 * 16) \<Longrightarrow>
      a mod 4 * 16 = a' mod 4 * 16"
    and "b < 256 \<Longrightarrow> b' < 256 \<Longrightarrow>
      base64_char (a mod 4 * 16 + b div 16) = base64_char (a' mod 4 * 16 + b' div 16) \<Longrightarrow>
      a mod 4 * 16 + b div 16 = a' mod 4 * 16 + b' div 16"
    and "base64_char (b mod 16 * 4) = base64_char (b' mod 16 * 4) \<Longrightarrow>
      b mod 16 * 4 = b' mod 16 * 4"
    and "c < 256 \<Longrightarrow> c' < 256 \<Longrightarrow>
      base64_char (b mod 16 * 4 + c div 64) = base64_char (b' mod 16 * 4 + c' div 64) \<Longrightarrow>
      b mod 16 * 4 + c div 64 = b' mod 16 * 4 + c' div 64"
    and "base64_char (c mod 64) = base64_char (c' mod 64) \<Longrightarrow> c mod 64 = c' mod 64"
  using base64_char_inj [OF sextet_bounds(1) sextet_bounds(1), of a a']
    base64_char_inj [OF sextet_bounds(2) sextet_bounds(2), of a a']
    base64_char_inj [OF sextet_bounds(3) sextet_bounds(3), of b b' a a']
    base64_char_inj [OF sextet_bounds(4) sextet_bounds(4), of b b']
    base64_char_inj [OF sextet_bounds(5) sextet_bounds(5), of c c' b b']
    base64_char_inj [OF sextet_bounds(6) sextet_bounds(6), of c c']
  by blast+

lemma sextet_not_pad:
  fixes b c :: nat
  shows "base64_char (b mod 16 * 4) \<noteq> 0x3D"
    and "c < 256 \<Longrightarrow> base64_char (b mod 16 * 4 + c div 64) \<noteq> 0x3D"
    and "base64_char (c mod 64) \<noteq> 0x3D"
  using base64_char_not_pad [OF sextet_bounds(4), of b]
    base64_char_not_pad [OF sextet_bounds(5), of c b]
    base64_char_not_pad [OF sextet_bounds(6), of c]
  by blast+

lemma base64_Nil_iff: "base64 xs = [] \<longleftrightarrow> xs = []"
  by (cases xs rule: base64.cases) simp_all

lemma base64_inj:
  "list_all (\<lambda>b. b < 256) xs \<Longrightarrow> list_all (\<lambda>b. b < 256) ys \<Longrightarrow> base64 xs = base64 ys \<Longrightarrow> xs = ys"
proof (induction xs arbitrary: ys rule: base64.induct)
  case 1
  then show ?case using base64_Nil_iff [of ys] by auto
next
  case (2 a)
  show ?case
  proof (cases ys rule: base64.cases)
    case 1
    then show ?thesis using "2.prems"(3) by (simp del: base64.simps add: base64.simps(1) base64_Nil_iff)
  next
    case (2 a')
    with "2.prems" have e: "base64_char (a div 4) = base64_char (a' div 4)"
      "base64_char (a mod 4 * 16) = base64_char (a' mod 4 * 16)" and l: "a < 256" "a' < 256"
      by simp_all
    have "a div 4 = a' div 4" by (rule sextet_eq(1) [OF l(1) l(2) e(1)])
    moreover have "a mod 4 * 16 = a' mod 4 * 16" by (rule sextet_eq(2) [OF e(2)])
    ultimately have "a = a'" by (rule sextets1)
    then show ?thesis using 2 by simp
  next
    case (3 a' b')
    with "2.prems" have "base64_char (b' mod 16 * 4) = 0x3D" by simp
    then show ?thesis using sextet_not_pad(1) [of b'] by simp
  next
    case (4 a' b' c' r')
    with "2.prems" have "base64_char (b' mod 16 * 4 + c' div 64) = 0x3D" "c' < 256"
      by simp_all
    then show ?thesis using sextet_not_pad(2) [of c' b'] by simp
  qed
next
  case (3 a b)
  show ?case
  proof (cases ys rule: base64.cases)
    case 1
    then show ?thesis using "3.prems"(3) by (simp del: base64.simps add: base64.simps(1) base64_Nil_iff)
  next
    case (2 a')
    with "3.prems" have "base64_char (b mod 16 * 4) = 0x3D" by simp
    then show ?thesis using sextet_not_pad(1) [of b] by simp
  next
    case (3 a' b')
    with "3.prems" have e: "base64_char (a div 4) = base64_char (a' div 4)"
      "base64_char (a mod 4 * 16 + b div 16) = base64_char (a' mod 4 * 16 + b' div 16)"
      "base64_char (b mod 16 * 4) = base64_char (b' mod 16 * 4)"
      and l: "a < 256" "a' < 256" "b < 256" "b' < 256"
      by simp_all
    have "a div 4 = a' div 4" by (rule sextet_eq(1) [OF l(1) l(2) e(1)])
    moreover have "a mod 4 * 16 + b div 16 = a' mod 4 * 16 + b' div 16"
      by (rule sextet_eq(3) [OF l(3) l(4) e(2)])
    moreover have "b mod 16 * 4 = b' mod 16 * 4" by (rule sextet_eq(4) [OF e(3)])
    ultimately have "a = a' \<and> b = b'" by (rule sextets2 [OF _ _ _ l(3) l(4)])
    then show ?thesis using 3 by simp
  next
    case (4 a' b' c' r')
    with "3.prems" have "base64_char (c' mod 64) = 0x3D" by simp
    then show ?thesis using sextet_not_pad(3) [of c'] by simp
  qed
next
  case (4 a b c r)
  show ?case
  proof (cases ys rule: base64.cases)
    case 1
    then show ?thesis using "4.prems"(3) by (simp del: base64.simps add: base64.simps(1) base64_Nil_iff)
  next
    case (2 a')
    with "4.prems" have "base64_char (b mod 16 * 4 + c div 64) = 0x3D" "c < 256"
      by simp_all
    then show ?thesis using sextet_not_pad(2) [of c b] by simp
  next
    case (3 a' b')
    with "4.prems" have "base64_char (c mod 64) = 0x3D" by simp
    then show ?thesis using sextet_not_pad(3) [of c] by simp
  next
    case (4 a' b' c' r')
    have "base64 (a # b # c # r) = base64 (a' # b' # c' # r')"
      using "4.prems"(3) 4 by (simp only:)
    then have e: "base64_char (a div 4) = base64_char (a' div 4)"
      "base64_char (a mod 4 * 16 + b div 16) = base64_char (a' mod 4 * 16 + b' div 16)"
      "base64_char (b mod 16 * 4 + c div 64) = base64_char (b' mod 16 * 4 + c' div 64)"
      "base64_char (c mod 64) = base64_char (c' mod 64)"
      and r1: "base64 r = base64 r'"
      by (simp_all only: base64.simps append_Cons append_Nil list.inject)
    have l: "a < 256" "a' < 256" "b < 256" "b' < 256" "c < 256" "c' < 256"
      and r2: "list_all (\<lambda>b. b < 256) r" "list_all (\<lambda>b. b < 256) r'"
      using "4.prems"(1,2) 4 by simp_all
    note r = r1 r2
    have "a div 4 = a' div 4" by (rule sextet_eq(1) [OF l(1) l(2) e(1)])
    moreover have "a mod 4 * 16 + b div 16 = a' mod 4 * 16 + b' div 16"
      by (rule sextet_eq(3) [OF l(3) l(4) e(2)])
    moreover have "b mod 16 * 4 + c div 64 = b' mod 16 * 4 + c' div 64"
      by (rule sextet_eq(5) [OF l(5) l(6) e(3)])
    moreover have "c mod 64 = c' mod 64" by (rule sextet_eq(6) [OF e(4)])
    ultimately have "a = a' \<and> b = b' \<and> c = c'"
      by (rule sextets [OF _ _ _ _ l(3) l(4) l(5) l(6)])
    moreover have "r = r'" by (rule "4.IH" [OF r(2) r(3) r(1)])
    ultimately show ?thesis using 4 by simp
  qed
qed

lemma btoa_inj:
  assumes "btoa s = Inr h" "btoa s' = Inr h"
  shows "s = s'"
proof -
  have l: "list_all (\<lambda>c. c \<le> 0xFF) s" "list_all (\<lambda>c. c \<le> 0xFF) s'"
    and e: "base64 (map unat s) = base64 (map unat s')"
    using assms by (auto simp: btoa_def split: if_splits)
  have b: "list_all (\<lambda>b. b < 256) (map unat t)" if "list_all (\<lambda>c. c \<le> 0xFF) t" for t :: jsstring
    using that by (induction t) (auto simp: word_le_nat_alt)
  have "map unat s = map unat s'"
    by (rule base64_inj [OF b [OF l(1)] b [OF l(2)] e])
  then show ?thesis
    by (simp add: inj_map_eq_map [OF inj_unsigned])
qed

lemma btoa_nonempty: "btoa s = Inr h \<Longrightarrow> s \<noteq> [] \<Longrightarrow> h \<noteq> []"
  by (auto simp: btoa_def base64_Nil_iff split: if_splits)

subsection \<open>Quoted strings\<close>

lemma unat_hex_digit: "n < 16 \<Longrightarrow> unat (hex_digit n) = (if n < 10 then 48 + n else 87 + n)"
proof -
  assume "n < 16"
  then have "(if n < 10 then 48 + n else 87 + n) < 2 ^ LENGTH(16)" by auto
  then show ?thesis unfolding hex_digit_def by (rule of_nat_inverse [OF refl])
qed

lemma unhex_hex: "n < 16 \<Longrightarrow> unhex_digit (hex_digit n) = n"
  by (simp add: unhex_digit_def unat_hex_digit)

lemma nibbles_nat: "4096 * (u div 4096) + 256 * (u div 256 mod 16) + 16 * (u div 16 mod 16) + u mod 16 = (u::nat)"
  using mod_mult2_eq [of u 16 16] mod_mult2_eq [of u 256 16] mult_div_mod_eq [of 4096 u]
  by simp

lemma unicode_roundtrip:
  "unicode_unescape (hex_digit (unat c div 4096)) (hex_digit (unat c div 256 mod 16))
     (hex_digit (unat c div 16 mod 16)) (hex_digit (unat c mod 16)) = c"
proof -
  have "unat c < 2 ^ LENGTH(16)" by (rule unsigned_less)
  then have "unat c div 4096 < 16" by simp
  then show ?thesis
    by (simp add: unicode_unescape_def unhex_hex nibbles_nat)
qed

lemma read_string_plain:
  "c \<noteq> 0x22 \<Longrightarrow> c \<noteq> 0x5C \<Longrightarrow>
     read_string (c # xs) = (case read_string xs of (s, rest) \<Rightarrow> (c # s, rest))"
  by simp

lemma read_string_unicode_escape:
  "read_string (unicode_escape c @ xs) = (case read_string xs of (s, rest) \<Rightarrow> (c # s, rest))"
  by (simp add: unicode_escape_def unicode_roundtrip)

lemma read_string_quote_unit:
  "read_string (quote_unit c @ xs) = (case read_string xs of (s, rest) \<Rightarrow> (c # s, rest))"
  by (simp add: quote_unit_def read_string_unicode_escape unescape_def del: read_string.simps)
     (simp add: unescape_def)

lemma surrogate_plain:
  "is_high_surrogate c \<or> is_low_surrogate c \<Longrightarrow> c \<noteq> 0x22 \<and> c \<noteq> 0x5C"
  by (auto simp: is_high_surrogate_def is_low_surrogate_def)

lemma read_string_quote_units:
  "read_string (quote_units s @ 0x22 # rest) = (s, rest)"
proof (induction s rule: quote_units.induct)
  case 1
  show ?case by simp
next
  case (2 c)
  show ?case
    by (simp add: read_string_unicode_escape read_string_quote_unit del: read_string.simps)
       simp
next
  case (3 c d r)
  show ?case
  proof (cases "is_high_surrogate c")
    case True
    note hi = this
    show ?thesis
    proof (cases "is_low_surrogate d")
      case True
      have "c \<noteq> 0x22 \<and> c \<noteq> 0x5C" "d \<noteq> 0x22 \<and> d \<noteq> 0x5C"
        using hi True surrogate_plain by blast+
      then show ?thesis using hi True "3.IH"(1) by simp
    next
      case False
      then show ?thesis using hi "3.IH"(2)
        by (simp add: read_string_unicode_escape del: read_string.simps)
    qed
  next
    case False
    then show ?thesis using "3.IH"(3,4)
      by (simp add: read_string_unicode_escape read_string_quote_unit
          del: read_string.simps)
  qed
qed

lemma JSON_stringify_shape:
  "JSON_stringify d =
     [0x7B, 0x22, 0x6C, 0x61, 0x74, 0x65, 0x73, 0x74, 0x22, 0x3A, 0x22] @ quote_units (latest d) @
     0x22 # ([0x2C, 0x22, 0x72, 0x65, 0x63, 0x65, 0x6E, 0x74, 0x22, 0x3A, 0x22] @ quote_units (recent d) @
     0x22 # ([0x2C, 0x22, 0x66, 0x65, 0x6C, 0x74, 0x22, 0x3A, 0x22] @ quote_units (felt d) @
     0x22 # [0x7D]))"
  by (simp add: JSON_stringify_def json_member_def QuoteJSONString_def str_def
      is_high_surrogate_def is_low_surrogate_def quote_unit_def)

lemma JSON_stringify_inj:
  assumes "JSON_stringify d = JSON_stringify d'"
  shows "latest d = latest d' \<and> recent d = recent d' \<and> felt d = felt d'"
proof -
  let ?t3 = "\<lambda>d. quote_units (felt d) @ 0x22 # [0x7D]"
  let ?t2 = "\<lambda>d. quote_units (recent d) @
     0x22 # ([0x2C, 0x22, 0x66, 0x65, 0x6C, 0x74, 0x22, 0x3A, 0x22] @ ?t3 d)"
  let ?t1 = "\<lambda>d. quote_units (latest d) @
     0x22 # ([0x2C, 0x22, 0x72, 0x65, 0x63, 0x65, 0x6E, 0x74, 0x22, 0x3A, 0x22] @ ?t2 d)"
  have "?t1 d = ?t1 d'"
    using assms unfolding JSON_stringify_shape by (simp only: same_append_eq)
  then have "read_string (?t1 d) = read_string (?t1 d')" by (rule arg_cong)
  then have 1: "latest d = latest d'" and "?t2 d = ?t2 d'"
    unfolding read_string_quote_units by (simp_all only: prod.inject same_append_eq)
  then have "read_string (?t2 d) = read_string (?t2 d')" by (simp only:)
  then have 2: "recent d = recent d'" and "?t3 d = ?t3 d'"
    unfolding read_string_quote_units by (simp_all only: prod.inject same_append_eq)
  then have "read_string (?t3 d) = read_string (?t3 d')" by (simp only:)
  then have 3: "felt d = felt d'"
    unfolding read_string_quote_units by (simp only: prod.inject)
  show ?thesis using 1 2 3 by simp
qed

subsection \<open>Joined timestamps\<close>

lemma split_at_first:
  "c \<notin> set x \<Longrightarrow> c \<notin> set y \<Longrightarrow> x @ c # u = y @ c # v \<Longrightarrow> x = y \<and> u = v"
proof (induction x arbitrary: y)
  case Nil
  then show ?case by (cases y) auto
next
  case (Cons a x)
  then show ?case by (cases y) auto
qed

lemma join_comma_inj:
  assumes "length xs = length ys"
    and "\<forall>x \<in> set xs. 0x2C \<notin> set x" "\<forall>y \<in> set ys. 0x2C \<notin> set y"
    and "join [0x2C] xs = join [0x2C] ys"
  shows "xs = ys"
  using assms
proof (induction xs ys rule: list_induct2)
  case Nil
  show ?case by simp
next
  case (Cons x xs y ys)
  show ?case
  proof (cases xs)
    case Nil
    then have "ys = []" using Cons.hyps by simp
    then show ?thesis using Nil Cons.prems by simp
  next
    case (Cons x' xs')
    then obtain y' ys' where ys: "ys = y' # ys'" using Cons.hyps by (cases ys) simp_all
    have "x @ 0x2C # join [0x2C] xs = y @ 0x2C # join [0x2C] ys"
      using Cons.prems(3) Cons ys by simp
    moreover have "0x2C \<notin> set x" "0x2C \<notin> set y"
      using Cons.prems(1,2) by simp_all
    ultimately have "x = y \<and> join [0x2C] xs = join [0x2C] ys"
      by (intro split_at_first [of "0x2C"])
    then show ?thesis using Cons.IH Cons.prems(1,2) by simp
  qed
qed

lemma generateDataHash_inj:
  assumes "generateDataHash l r f = Inr h" "generateDataHash l' r' f' = Inr h"
  shows "(case l of None \<Rightarrow> [] | Some e \<Rightarrow> EarthquakeData.DateTime e) =
           (case l' of None \<Rightarrow> [] | Some e \<Rightarrow> EarthquakeData.DateTime e) \<and>
         join [0x2C] (map RecentEarthquake.DateTime r) = join [0x2C] (map RecentEarthquake.DateTime r') \<and>
         join [0x2C] (map RecentEarthquake.DateTime f) = join [0x2C] (map RecentEarthquake.DateTime f')"
  using JSON_stringify_inj [OF btoa_inj [OF assms [unfolded generateDataHash_def Let_def]]]
  by simp

lemma order_sensitive:
  assumes p: "mset (map RecentEarthquake.DateTime r) = mset (map RecentEarthquake.DateTime r')"
    and n: "map RecentEarthquake.DateTime r \<noteq> map RecentEarthquake.DateTime r'"
    and c: "\<forall>t \<in> set (map RecentEarthquake.DateTime r). 0x2C \<notin> set t"
  shows "join [0x2C] (map RecentEarthquake.DateTime r) \<noteq> join [0x2C] (map RecentEarthquake.DateTime r')"
proof
  assume e: "join [0x2C] (map RecentEarthquake.DateTime r) = join [0x2C] (map RecentEarthquake.DateTime r')"
  have l: "length (map RecentEarthquake.DateTime r) = length (map RecentEarthquake.DateTime r')"
    using p by (rule mset_eq_length)
  have "set (map RecentEarthquake.DateTime r) = set (map RecentEarthquake.DateTime r')"
    using p by (rule mset_eq_setD)
  then have c': "\<forall>t \<in> set (map RecentEarthquake.DateTime r'). 0x2C \<notin> set t"
    using c by simp
  have "map RecentEarthquake.DateTime r = map RecentEarthquake.DateTime r'"
    by (rule join_comma_inj [OF l c c' e])
  then show False using n by simp
qed

lemma example_hash_T0_T1:
  "generateDataHash None [example_entry (str ''T0''), example_entry (str ''T1'')] [] =
     Inr (str ''eyJsYXRlc3QiOiIiLCJyZWNlbnQiOiJUMCxUMSIsImZlbHQiOiIifQ=='')"
  "generateDataHash None [example_entry (str ''T1''), example_entry (str ''T0'')] [] =
     Inr (str ''eyJsYXRlc3QiOiIiLCJyZWNlbnQiOiJUMSxUMCIsImZlbHQiOiIifQ=='')"
  by (simp_all add: hash_eval_defs)

section \<open>Magnitude classification: properties\<close>

text \<open>
  Claim C1. The specification has a magnitude that does not parse fall into the lowest
  class, \<open>Gempa Ringan\<close>. In the program such a magnitude parses to NaN, both comparisons
  with NaN are false, and the classification is the last branch, \<open>Gempa Kuat\<close>, the
  highest class.
\<close>

theorem getMagnitudeInfo_unparsable:
  "parseFloat magnitude = NaN \<Longrightarrow>
     classification (getMagnitudeInfo darkMode magnitude) = str ''Gempa Kuat'' \<and>
     classification (getMagnitudeInfo darkMode magnitude) \<noteq> str ''Gempa Ringan''"
  by (simp add: getMagnitudeInfo_def str_def)

theorem getMagnitudeInfo_unparsable_witness:
  "parseFloat [] = NaN \<and>
   classification (getMagnitudeInfo False []) = str ''Gempa Kuat'' \<and>
   classification (getMagnitudeInfo False []) \<noteq> str ''Gempa Ringan''"
  using getMagnitudeInfo_unparsable [OF parseFloat_empty, of False] parseFloat_empty
  by blast

section \<open>List feeds: properties\<close>

text \<open>
  Claim C4. A list feed gives at most 15 entries. When the inner array is there, the
  result is its first 15 entries in the order of the feed, so exactly 15 of a feed of 20.
  When \<open>Infogempa\<close> or the array \<open>gempa\<close> is missing, the result is the empty list.
\<close>

theorem list_feed_first_15:
  "length (fetch_list r) \<le> 15 \<and>
   (Infogempa d = None \<longrightarrow> fetch_list (Response True (Some d)) = []) \<and>
   (\<forall>i. Infogempa d = Some i \<and> gempa i = None \<longrightarrow> fetch_list (Response True (Some d)) = []) \<and>
   (\<forall>i g. Infogempa d = Some i \<and> gempa i = Some g \<longrightarrow>
      fetch_list (Response True (Some d)) = take 15 g \<and>
      (length g = 20 \<longrightarrow> length (fetch_list (Response True (Some d))) = 15 \<and>
         (\<forall>k < 15. fetch_list (Response True (Some d)) ! k = g ! k)))"
  by (auto simp: fetch_list_def first_entries_def split: fetched.splits option.splits)

theorem list_feed_first_15_witness:
  "length (map (\<lambda>n. example_entry [of_nat n]) [0..<20]) = 20 \<and>
   fetch_list (Response True (Some (example_feed (map (\<lambda>n. example_entry [of_nat n]) [0..<20])))) =
     take 15 (map (\<lambda>n. example_entry [of_nat n]) [0..<20]) \<and>
   length (fetch_list (Response True (Some (example_feed (map (\<lambda>n. example_entry [of_nat n]) [0..<20]))))) = 15 \<and>
   fetch_list (Response True (Some \<lparr> Infogempa = None \<rparr>)) = [] \<and>
   fetch_list (Response True (Some \<lparr> Infogempa = Some \<lparr> gempa = None \<rparr> \<rparr>)) = []"
  using list_feed_first_15 [of "Rejected" "example_feed (map (\<lambda>n. example_entry [of_nat n]) [0..<20])"]
    list_feed_first_15 [of "Rejected" "\<lparr> Infogempa = None \<rparr>"]
    list_feed_first_15 [of "Rejected" "\<lparr> Infogempa = Some \<lparr> gempa = None \<rparr> \<rparr>"]
  by (simp add: example_feed_def)

section \<open>The change signature: properties\<close>

text \<open>
  Claim C5, as the program has it. The signature is a function of three inputs only: the
  timestamp of the latest event, or the empty string when there is none, the timestamps
  of the recent list in order, and those of the felt list in order; candidates that agree
  on them have the same result. Reordering the timestamps of a list changes the
  signature when no timestamp of the list contains a comma: two lists with the same
  timestamps in a different order, each with a signature, have different signatures.
\<close>

theorem signature_deterministic_order_sensitive:
  "((case l of None \<Rightarrow> [] | Some e \<Rightarrow> EarthquakeData.DateTime e) =
      (case l' of None \<Rightarrow> [] | Some e \<Rightarrow> EarthquakeData.DateTime e) \<and>
    map RecentEarthquake.DateTime r = map RecentEarthquake.DateTime r' \<and>
    map RecentEarthquake.DateTime f = map RecentEarthquake.DateTime f' \<longrightarrow>
      generateDataHash l r f = generateDataHash l' r' f') \<and>
   (\<forall>h h'. mset (map RecentEarthquake.DateTime r) = mset (map RecentEarthquake.DateTime r') \<and>
      map RecentEarthquake.DateTime r \<noteq> map RecentEarthquake.DateTime r' \<and>
      (\<forall>t \<in> set (map RecentEarthquake.DateTime r). 0x2C \<notin> set t) \<and>
      generateDataHash l r f = Inr h \<and> generateDataHash l r' f = Inr h' \<longrightarrow> h \<noteq> h') \<and>
   (\<forall>h h'. mset (map RecentEarthquake.DateTime f) = mset (map RecentEarthquake.DateTime f') \<and>
      map RecentEarthquake.DateTime f \<noteq> map RecentEarthquake.DateTime f' \<and>
      (\<forall>t \<in> set (map RecentEarthquake.DateTime f). 0x2C \<notin> set t) \<and>
      generateDataHash l r f = Inr h \<and> generateDataHash l r f' = Inr h' \<longrightarrow> h \<noteq> h')"
proof (intro conjI allI impI)
  assume "(case l of None \<Rightarrow> [] | Some e \<Rightarrow> EarthquakeData.DateTime e) =
      (case l' of None \<Rightarrow> [] | Some e \<Rightarrow> EarthquakeData.DateTime e) \<and>
    map RecentEarthquake.DateTime r = map RecentEarthquake.DateTime r' \<and>
    map RecentEarthquake.DateTime f = map RecentEarthquake.DateTime f'"
  then show "generateDataHash l r f = generateDataHash l' r' f'"
    by (simp add: generateDataHash_def)
next
  fix h h'
  assume a: "mset (map RecentEarthquake.DateTime r) = mset (map RecentEarthquake.DateTime r') \<and>
      map RecentEarthquake.DateTime r \<noteq> map RecentEarthquake.DateTime r' \<and>
      (\<forall>t \<in> set (map RecentEarthquake.DateTime r). 0x2C \<notin> set t) \<and>
      generateDataHash l r f = Inr h \<and> generateDataHash l r' f = Inr h'"
  show "h \<noteq> h'"
  proof
    assume "h = h'"
    then have "join [0x2C] (map RecentEarthquake.DateTime r) = join [0x2C] (map RecentEarthquake.DateTime r')"
      using a generateDataHash_inj [of l r f h l r' f] by simp
    then show False using a order_sensitive [of r r'] by simp
  qed
next
  fix h h'
  assume a: "mset (map RecentEarthquake.DateTime f) = mset (map RecentEarthquake.DateTime f') \<and>
      map RecentEarthquake.DateTime f \<noteq> map RecentEarthquake.DateTime f' \<and>
      (\<forall>t \<in> set (map RecentEarthquake.DateTime f). 0x2C \<notin> set t) \<and>
      generateDataHash l r f = Inr h \<and> generateDataHash l r f' = Inr h'"
  show "h \<noteq> h'"
  proof
    assume "h = h'"
    then have "join [0x2C] (map RecentEarthquake.DateTime f) = join [0x2C] (map RecentEarthquake.DateTime f')"
      using a generateDataHash_inj [of l r f h l r f'] by simp
    then show False using a order_sensitive [of f f'] by simp
  qed
qed

text \<open>
  The recent lists \<open>T0, T1\<close> and \<open>T1, T0\<close> have different signatures, and the signature
  does not change with the magnitude of an entry.
\<close>

theorem signature_deterministic_order_sensitive_witness:
  "generateDataHash None [example_entry (str ''T0''), example_entry (str ''T1'')] [] \<noteq>
     generateDataHash None [example_entry (str ''T1''), example_entry (str ''T0'')] [] \<and>
   generateDataHash None
     [(example_entry (str ''T0''))\<lparr>RecentEarthquake.Magnitude := str ''6.4''\<rparr>, example_entry (str ''T1'')] [] =
     generateDataHash None [example_entry (str ''T0''), example_entry (str ''T1'')] []"
proof -
  let ?r = "[example_entry (str ''T0''), example_entry (str ''T1'')]"
  let ?r' = "[example_entry (str ''T1''), example_entry (str ''T0'')]"
  let ?r'' = "[(example_entry (str ''T0''))\<lparr>RecentEarthquake.Magnitude := str ''6.4''\<rparr>, example_entry (str ''T1'')]"
  have "mset (map RecentEarthquake.DateTime ?r) = mset (map RecentEarthquake.DateTime ?r')"
    by (simp add: example_entry_def)
  moreover have "map RecentEarthquake.DateTime ?r \<noteq> map RecentEarthquake.DateTime ?r'"
    by (simp add: example_entry_def str_def)
  moreover have "\<forall>t \<in> set (map RecentEarthquake.DateTime ?r). 0x2C \<notin> set t"
    by (simp add: example_entry_def str_def)
  ultimately have "str ''eyJsYXRlc3QiOiIiLCJyZWNlbnQiOiJUMCxUMSIsImZlbHQiOiIifQ=='' \<noteq>
      str ''eyJsYXRlc3QiOiIiLCJyZWNlbnQiOiJUMSxUMCIsImZlbHQiOiIifQ==''"
    using signature_deterministic_order_sensitive [of None None ?r ?r' "[]" "[]"] example_hash_T0_T1
    by blast
  moreover have "map RecentEarthquake.DateTime ?r'' = map RecentEarthquake.DateTime ?r"
    by (simp add: example_entry_def)
  then have "generateDataHash None ?r'' [] = generateDataHash None ?r []"
    using signature_deterministic_order_sensitive [of None None ?r'' ?r "[]" "[]"] by blast
  ultimately show ?thesis using example_hash_T0_T1 by simp
qed

text \<open>
  Claim C5, as the specification has it, lets every reordering of distinct timestamps
  change the signature. The timestamps \<open>a\<close> and \<open>a,a\<close> are distinct, and in either
  order they are joined to \<open>a,a,a\<close>: the two recent lists have the same signature.
\<close>

theorem signature_order_counterexample:
  "mset (map RecentEarthquake.DateTime [example_entry (str ''a''), example_entry (str ''a,a'')]) =
     mset (map RecentEarthquake.DateTime [example_entry (str ''a,a''), example_entry (str ''a'')]) \<and>
   distinct (map RecentEarthquake.DateTime [example_entry (str ''a''), example_entry (str ''a,a'')]) \<and>
   map RecentEarthquake.DateTime [example_entry (str ''a''), example_entry (str ''a,a'')] \<noteq>
     map RecentEarthquake.DateTime [example_entry (str ''a,a''), example_entry (str ''a'')] \<and>
   generateDataHash None [example_entry (str ''a''), example_entry (str ''a,a'')] [] =
     Inr (str ''eyJsYXRlc3QiOiIiLCJyZWNlbnQiOiJhLGEsYSIsImZlbHQiOiIifQ=='') \<and>
   generateDataHash None [example_entry (str ''a,a''), example_entry (str ''a'')] [] =
     Inr (str ''eyJsYXRlc3QiOiIiLCJyZWNlbnQiOiJhLGEsYSIsImZlbHQiOiIifQ=='')"
proof -
  have "generateDataHash None [example_entry (str ''a''), example_entry (str ''a,a'')] [] =
     Inr (str ''eyJsYXRlc3QiOiIiLCJyZWNlbnQiOiJhLGEsYSIsImZlbHQiOiIifQ=='')"
    "generateDataHash None [example_entry (str ''a,a''), example_entry (str ''a'')] [] =
     Inr (str ''eyJsYXRlc3QiOiIiLCJyZWNlbnQiOiJhLGEsYSIsImZlbHQiOiIifQ=='')"
    by (simp_all add: hash_eval_defs)
  then show ?thesis by (simp add: example_entry_def str_def)
qed

section \<open>Refresh cycles: properties\<close>

text \<open>
  Claim C6. A background cycle whose latest-event fetch is rejected or answered with a
  status that is not a success leaves the whole state as it was, the error message
  included, and shows no alert.
\<close>

theorem background_latest_failure_keeps_state:
  "latestResponse env = Rejected \<or> (\<exists>b. latestResponse env = Response False b) \<Longrightarrow>
     fetchAllEarthquakeData True env s = (s, [])"
  by (auto simp: fetchAllEarthquakeData_def try_block_def)

theorem background_latest_failure_keeps_state_witness:
  "fetchAllEarthquakeData True (example_input example_event\<lparr>latestResponse := Rejected\<rparr>)
     (initial_state\<lparr>hasNewData := True, lastDataHash := str ''S0''\<rparr>) =
     (initial_state\<lparr>hasNewData := True, lastDataHash := str ''S0''\<rparr>, []) \<and>
   fetchAllEarthquakeData True
     (example_input example_event\<lparr>latestResponse := Response False example_no_root\<rparr>)
     initial_state = (initial_state, [])"
  using background_latest_failure_keeps_state
      [of "example_input example_event\<lparr>latestResponse := Rejected\<rparr>"
          "initial_state\<lparr>hasNewData := True, lastDataHash := str ''S0''\<rparr>"]
    background_latest_failure_keeps_state
      [of "example_input example_event\<lparr>latestResponse := Response False example_no_root\<rparr>"
          initial_state]
  by simp

text \<open>
  Claim C3, as the program has it. When the document of the latest-event response has no
  \<open>gempa\<close> element, \<open>parseXMLData\<close> returns \<open>null\<close> and the foreground cycle goes on: where
  the signature of the candidate can be computed, the cycle writes the two lists, the
  signature and the time of the update, clears \<open>hasNewData\<close>, leaves the stored latest
  event as it was, and shows no error.
\<close>

theorem missing_root_foreground_commits:
  assumes "latestResponse env = Response True xmlDoc"
    and "document_querySelector xmlDoc (str ''gempa'') = None"
    and "generateDataHash None (fetch_list (recentResponse env)) (fetch_list (feltResponse env)) = Inr h"
  shows "fetchAllEarthquakeData False env s =
     (s\<lparr> recentEarthquakes := fetch_list (recentResponse env),
         feltEarthquakes := fetch_list (feltResponse env),
         lastDataHash := h, lastUpdated := Some (now env), hasNewData := False,
         loading := False, error_message := None \<rparr>, []) \<and>
    latestEarthquake (fst (fetchAllEarthquakeData False env s)) = latestEarthquake s"
proof -
  have none: "parseXMLData xmlDoc = None"
    using assms(2) by (simp add: parseXMLData_None_iff)
  show ?thesis
    using cycle_commit [of env xmlDoc h False s] assms(1,3) none by simp
qed

theorem missing_root_foreground_commits_witness:
  "fetchAllEarthquakeData False (example_input example_no_root) initial_state =
     (initial_state\<lparr> recentEarthquakes := [],
         feltEarthquakes := [example_entry (str ''T0'')],
         lastDataHash := example_signature_no_latest, lastUpdated := Some 1, hasNewData := False,
         loading := False, error_message := None \<rparr>, []) \<and>
    latestEarthquake (fst (fetchAllEarthquakeData False (example_input example_no_root) initial_state)) = None"
proof -
  have "document_querySelector example_no_root (str ''gempa'') = None"
    using parseXMLData_no_root by (simp add: parseXMLData_None_iff)
  then show ?thesis
    using missing_root_foreground_commits [of "example_input example_no_root" example_no_root
        example_signature_no_latest initial_state] example_hash_no_latest
    by (simp add: example_lists) (simp add: example_input_def initial_state_def)
qed

text \<open>
  Claim C3, as the specification has it, asks for an unchanged state and an error. In the
  sample cycle the document has no \<open>gempa\<close> element, and yet the felt list and the
  signature are replaced and no error message is set.
\<close>

theorem missing_root_foreground_counterexample:
  "document_querySelector example_no_root (str ''gempa'') = None \<and>
   feltEarthquakes (fst (fetchAllEarthquakeData False (example_input example_no_root) initial_state))
     \<noteq> feltEarthquakes initial_state \<and>
   lastDataHash (fst (fetchAllEarthquakeData False (example_input example_no_root) initial_state))
     \<noteq> lastDataHash initial_state \<and>
   error_message (fst (fetchAllEarthquakeData False (example_input example_no_root) initial_state)) = None"
proof -
  have "fetchAllEarthquakeData False (example_input example_no_root) initial_state =
     (initial_state\<lparr> recentEarthquakes := [],
         feltEarthquakes := [example_entry (str ''T0'')],
         lastDataHash := example_signature_no_latest, lastUpdated := Some 1, hasNewData := False,
         loading := False, error_message := None \<rparr>, [])"
    using cycle_commit [of "example_input example_no_root" example_no_root
        example_signature_no_latest False initial_state] example_hash_no_latest parseXMLData_no_root
    by (simp add: example_lists) (simp add: example_input_def initial_state_def)
  moreover have "document_querySelector example_no_root (str ''gempa'') = None"
    using parseXMLData_no_root by (simp add: parseXMLData_None_iff)
  ultimately show ?thesis
    using example_signature_neq(3) by (simp add: initial_state_def)
qed

text \<open>
  Claim C7. Take a cycle, foreground or background, whose latest-event response is a
  success with a latest event in it, and in which the recent-list or the felt-list fetch
  fails. Where the signature of the candidate is computed, the cycle commits: the stored
  latest event is the new one, the list that failed is empty, and no error message is
  set. Where \<open>btoa\<close> raises instead, because a timestamp of the candidate has a code unit
  above \<open>0xFF\<close>, the cycle is left through the outer \<open>catch\<close>: nothing is committed, and
  a foreground cycle sets the error message.
\<close>

theorem list_failure_cycle:
  assumes "latestResponse env = Response True xmlDoc"
    and "parseXMLData xmlDoc = Some l"
    and "list_fetch_failed (recentResponse env) \<or> list_fetch_failed (feltResponse env)"
  shows "(\<forall>h. generateDataHash (Some l) (fetch_list (recentResponse env))
              (fetch_list (feltResponse env)) = Inr h \<longrightarrow>
            latestEarthquake (fst (fetchAllEarthquakeData silent env s)) = Some l \<and>
            lastDataHash (fst (fetchAllEarthquakeData silent env s)) = h \<and>
            (list_fetch_failed (recentResponse env) \<longrightarrow>
               recentEarthquakes (fst (fetchAllEarthquakeData silent env s)) = []) \<and>
            (list_fetch_failed (feltResponse env) \<longrightarrow>
               feltEarthquakes (fst (fetchAllEarthquakeData silent env s)) = []) \<and>
            error_message (fst (fetchAllEarthquakeData silent env s)) =
               (if silent then error_message s else None)) \<and>
         (\<forall>e. generateDataHash (Some l) (fetch_list (recentResponse env))
              (fetch_list (feltResponse env)) = Inl e \<longrightarrow>
            fetchAllEarthquakeData silent env s =
              ((if silent then s else s\<lparr>loading := False, error_message := Some failure_message\<rparr>), []))"
proof (intro conjI allI impI)
  fix h
  assume h: "generateDataHash (Some l) (fetch_list (recentResponse env))
      (fetch_list (feltResponse env)) = Inr h"
  note c = cycle_commit [of env xmlDoc h silent s, OF assms(1)]
  show "latestEarthquake (fst (fetchAllEarthquakeData silent env s)) = Some l"
    using c h assms(2) by simp
  show "lastDataHash (fst (fetchAllEarthquakeData silent env s)) = h"
    using c h assms(2) by simp
  show "error_message (fst (fetchAllEarthquakeData silent env s)) =
      (if silent then error_message s else None)"
    using c h assms(2) by simp
  show "recentEarthquakes (fst (fetchAllEarthquakeData silent env s)) = []"
    if "list_fetch_failed (recentResponse env)"
    using c h assms(2) list_fetch_failed_empty [OF that] by simp
  show "feltEarthquakes (fst (fetchAllEarthquakeData silent env s)) = []"
    if "list_fetch_failed (feltResponse env)"
    using c h assms(2) list_fetch_failed_empty [OF that] by simp
next
  fix e
  assume "generateDataHash (Some l) (fetch_list (recentResponse env))
      (fetch_list (feltResponse env)) = Inl e"
  then show "fetchAllEarthquakeData silent env s =
      ((if silent then s else s\<lparr>loading := False, error_message := Some failure_message\<rparr>), [])"
    using cycle_abort [of env silent s] assms(1,2) by auto
qed

text \<open>
  The sample cycle with the euro sign in the timestamp of the latest event, in the
  foreground: the recent-list fetch is rejected, nothing is committed and the error
  message is set. With an ASCII timestamp the same cycle commits.
\<close>

theorem list_failure_cycle_witness:
  "list_fetch_failed (recentResponse (example_input example_euro_event)) \<and>
   fetchAllEarthquakeData False (example_input example_euro_event) initial_state =
     (initial_state\<lparr>loading := False, error_message := Some failure_message\<rparr>, []) \<and>
   latestEarthquake (fst (fetchAllEarthquakeData False (example_input example_event) initial_state))
     = Some example_latest \<and>
   recentEarthquakes (fst (fetchAllEarthquakeData False (example_input example_event) initial_state))
     = [] \<and>
   error_message (fst (fetchAllEarthquakeData False (example_input example_event) initial_state))
     = None"
proof -
  have f: "list_fetch_failed (recentResponse (example_input d))" for d
    by (simp add: list_fetch_failed_def example_input_def)
  show ?thesis
    using f [of example_euro_event] f [of example_event]
      list_failure_cycle [of "example_input example_euro_event" example_euro_event
        example_euro_latest
        False initial_state]
      list_failure_cycle [of "example_input example_event" example_event example_latest
        False initial_state]
      parseXMLData_euro parseXMLData_example example_hash example_hash_euro
    by (simp add: example_lists)
qed

section \<open>Alerts and the unseen-data flag: properties\<close>

text \<open>
  Claim C2. A cycle shows an alert exactly when it is a background cycle, the stored
  signature is not empty, the latest-event response is a success whose document holds a
  latest event, the signature of the candidate is computed and differs from the stored
  one, the magnitude of that event parses to a number that is at least 6.0, and the
  notification permission is granted. A foreground cycle shows no alert, whatever its
  inputs.
\<close>

theorem notification_decision:
  "(snd (fetchAllEarthquakeData silent env s) \<noteq> [] \<longleftrightarrow>
      silent \<and> lastDataHash s \<noteq> [] \<and>
      (\<exists>xmlDoc l h. latestResponse env = Response True xmlDoc \<and> parseXMLData xmlDoc = Some l \<and>
         generateDataHash (Some l) (fetch_list (recentResponse env))
           (fetch_list (feltResponse env)) = Inr h \<and>
         h \<noteq> lastDataHash s \<and> num_ge (parseFloat (EarthquakeData.Magnitude l)) (Fin 6)) \<and>
      notification_permission env = Some Granted) \<and>
   snd (fetchAllEarthquakeData False env s) = []"
proof -
  have fg: "snd (fetchAllEarthquakeData False env s) = []"
    by (auto simp: fetchAllEarthquakeData_def try_block_def Let_def
        split: fetched.splits sum.splits option.splits)
  show ?thesis
  proof (cases "latestResponse env")
    case Rejected
    then show ?thesis using fg cycle_abort [of env silent s] by auto
  next
    case (Response ok xmlDoc)
    show ?thesis
    proof (cases ok)
      case False
      then show ?thesis using fg Response cycle_abort [of env silent s] by auto
    next
      case True
      show ?thesis
      proof (cases "generateDataHash (parseXMLData xmlDoc) (fetch_list (recentResponse env))
           (fetch_list (feltResponse env))")
        case (Inl e)
        then show ?thesis using fg Response True cycle_abort [of env silent s] by auto
      next
        case (Inr h)
        then show ?thesis using fg Response True cycle_commit [of env xmlDoc h silent s]
          by (auto simp: strong_quake_alert_def split: option.splits if_splits)
      qed
    qed
  qed
qed

text \<open>
  A background cycle for a magnitude 7.0 event after the signature \<open>S0\<close> alerts; the
  foreground cycle with the same inputs does not.
\<close>

theorem notification_decision_witness:
  "snd (fetchAllEarthquakeData True (example_input example_event)
         (initial_state\<lparr>lastDataHash := str ''S0''\<rparr>)) \<noteq> [] \<and>
   snd (fetchAllEarthquakeData False (example_input example_event)
         (initial_state\<lparr>lastDataHash := str ''S0''\<rparr>)) = []"
proof -
  have "\<exists>xmlDoc l h. latestResponse (example_input example_event) = Response True xmlDoc \<and>
      parseXMLData xmlDoc = Some l \<and>
      generateDataHash (Some l) (fetch_list (recentResponse (example_input example_event)))
        (fetch_list (feltResponse (example_input example_event))) = Inr h \<and>
      h \<noteq> lastDataHash (initial_state\<lparr>lastDataHash := str ''S0''\<rparr>) \<and>
      num_ge (parseFloat (EarthquakeData.Magnitude l)) (Fin 6)"
    using parseXMLData_example example_hash example_signature_neq(2) parseFloat_7
    by (intro exI [of _ example_event] exI [of _ example_latest] exI [of _ example_signature])
      (simp add: example_lists example_latest_def)
  moreover have "lastDataHash (initial_state\<lparr>lastDataHash := str ''S0''\<rparr>) \<noteq> []"
    by (simp add: str_def)
  ultimately show ?thesis
    using notification_decision [of True "example_input example_event"
        "initial_state\<lparr>lastDataHash := str ''S0''\<rparr>"]
      notification_decision [of False "example_input example_event"
        "initial_state\<lparr>lastDataHash := str ''S0''\<rparr>"]
    by (simp add: example_lists)
qed

text \<open>
  Claim C8, as the program has it. A cycle that commits turns \<open>hasNewData\<close> from false to
  true exactly when it is a background cycle, the stored signature is not empty and the
  new signature differs from it. No background cycle turns \<open>hasNewData\<close> from true to
  false. A background cycle whose signature equals the stored one leaves \<open>hasNewData\<close> as
  it was and shows no alert.
\<close>

theorem unseen_flag:
  "(\<forall>xmlDoc h. latestResponse env = Response True xmlDoc \<and>
       generateDataHash (parseXMLData xmlDoc) (fetch_list (recentResponse env))
         (fetch_list (feltResponse env)) = Inr h \<and> \<not> hasNewData s \<longrightarrow>
       (hasNewData (fst (fetchAllEarthquakeData silent env s)) \<longleftrightarrow>
          silent \<and> lastDataHash s \<noteq> [] \<and> h \<noteq> lastDataHash s)) \<and>
   (hasNewData s \<and> \<not> hasNewData (fst (fetchAllEarthquakeData silent env s)) \<longrightarrow> \<not> silent) \<and>
   (\<forall>xmlDoc h. latestResponse env = Response True xmlDoc \<and>
       generateDataHash (parseXMLData xmlDoc) (fetch_list (recentResponse env))
         (fetch_list (feltResponse env)) = Inr h \<and> silent \<and> h = lastDataHash s \<longrightarrow>
       hasNewData (fst (fetchAllEarthquakeData silent env s)) = hasNewData s \<and>
       snd (fetchAllEarthquakeData silent env s) = [])"
proof (intro conjI allI impI)
  fix xmlDoc h
  assume "latestResponse env = Response True xmlDoc \<and>
       generateDataHash (parseXMLData xmlDoc) (fetch_list (recentResponse env))
         (fetch_list (feltResponse env)) = Inr h \<and> \<not> hasNewData s"
  then show "hasNewData (fst (fetchAllEarthquakeData silent env s)) \<longleftrightarrow>
          silent \<and> lastDataHash s \<noteq> [] \<and> h \<noteq> lastDataHash s"
    using cycle_commit [of env xmlDoc h silent s] by simp
next
  assume "hasNewData s \<and> \<not> hasNewData (fst (fetchAllEarthquakeData silent env s))"
  then show "\<not> silent"
    by (auto simp: fetchAllEarthquakeData_def try_block_def Let_def
        split: fetched.splits sum.splits option.splits if_splits)
next
  fix xmlDoc h
  assume a: "latestResponse env = Response True xmlDoc \<and>
       generateDataHash (parseXMLData xmlDoc) (fetch_list (recentResponse env))
         (fetch_list (feltResponse env)) = Inr h \<and> silent \<and> h = lastDataHash s"
  then show "hasNewData (fst (fetchAllEarthquakeData silent env s)) = hasNewData s"
    using cycle_commit [of env xmlDoc h silent s] by simp
  from a show "snd (fetchAllEarthquakeData silent env s) = []"
    using cycle_commit [of env xmlDoc h silent s] by simp
qed

text \<open>
  After the signature \<open>S0\<close> a background cycle sets the flag and a foreground cycle
  clears it; a background cycle of a magnitude 7.0 event whose signature is the stored
  one leaves the flag false and shows no alert.
\<close>

theorem unseen_flag_witness:
  "hasNewData (fst (fetchAllEarthquakeData True (example_input example_event)
      (initial_state\<lparr>lastDataHash := str ''S0''\<rparr>))) \<and>
   \<not> hasNewData (fst (fetchAllEarthquakeData False (example_input example_event)
      (initial_state\<lparr>lastDataHash := str ''S0'', hasNewData := True\<rparr>))) \<and>
   \<not> hasNewData (fst (fetchAllEarthquakeData True (example_input example_event)
      (initial_state\<lparr>lastDataHash := example_signature\<rparr>))) \<and>
   snd (fetchAllEarthquakeData True (example_input example_event)
      (initial_state\<lparr>lastDataHash := example_signature\<rparr>)) = [] \<and>
   parseFloat (EarthquakeData.Magnitude example_latest) = Fin 7"
proof -
  let ?env = "example_input example_event"
  have h: "latestResponse ?env = Response True example_event \<and>
     generateDataHash (parseXMLData example_event) (fetch_list (recentResponse ?env))
      (fetch_list (feltResponse ?env)) = Inr example_signature"
    using example_hash by (simp add: example_lists parseXMLData_example)
  have s0: "lastDataHash (initial_state\<lparr>lastDataHash := str ''S0''\<rparr>) \<noteq> []"
    "example_signature \<noteq> lastDataHash (initial_state\<lparr>lastDataHash := str ''S0''\<rparr>)"
    "\<not> hasNewData (initial_state\<lparr>lastDataHash := str ''S0''\<rparr>)"
    using example_signature_neq(2) by (simp_all add: str_def initial_state_def)
  have a: "hasNewData (fst (fetchAllEarthquakeData True ?env
      (initial_state\<lparr>lastDataHash := str ''S0''\<rparr>)))"
    using unseen_flag [of ?env "initial_state\<lparr>lastDataHash := str ''S0''\<rparr>" True] h s0
    by blast
  have b: "\<not> hasNewData (fst (fetchAllEarthquakeData False ?env
      (initial_state\<lparr>lastDataHash := str ''S0'', hasNewData := True\<rparr>)))"
    using cycle_commit [of ?env example_event example_signature False
        "initial_state\<lparr>lastDataHash := str ''S0'', hasNewData := True\<rparr>"] h
    by simp
  have s1: "example_signature = lastDataHash (initial_state\<lparr>lastDataHash := example_signature\<rparr>)"
    "\<not> hasNewData (initial_state\<lparr>lastDataHash := example_signature\<rparr>)"
    by (simp_all add: initial_state_def)
  have c: "hasNewData (fst (fetchAllEarthquakeData True ?env
        (initial_state\<lparr>lastDataHash := example_signature\<rparr>))) =
      hasNewData (initial_state\<lparr>lastDataHash := example_signature\<rparr>) \<and>
     snd (fetchAllEarthquakeData True ?env
        (initial_state\<lparr>lastDataHash := example_signature\<rparr>)) = []"
    using unseen_flag [of ?env "initial_state\<lparr>lastDataHash := example_signature\<rparr>" True] h s1(1)
    by blast
  have d: "parseFloat (EarthquakeData.Magnitude example_latest) = Fin 7"
    using parseFloat_7 by (simp add: example_latest_def)
  show ?thesis using a b c d s1(2) by simp
qed

text \<open>
  Claim C8, as the specification has it, sets the flag whenever a background cycle brings
  a signature that differs from the stored one. The first background cycle of a session
  brings a signature that differs from the empty one and leaves the flag false.
\<close>

theorem unseen_flag_counterexample:
  "lastDataHash (fst (fetchAllEarthquakeData True (example_input example_event) initial_state))
     \<noteq> lastDataHash initial_state \<and>
   \<not> hasNewData (fst (fetchAllEarthquakeData True (example_input example_event) initial_state))"
proof -
  have h: "generateDataHash (parseXMLData example_event)
      (fetch_list (recentResponse (example_input example_event)))
      (fetch_list (feltResponse (example_input example_event))) = Inr example_signature"
    using example_hash by (simp add: example_lists parseXMLData_example)
  show ?thesis
    using cycle_commit [of "example_input example_event" example_event example_signature True
        initial_state] h example_signature_neq(1)
    by (simp add: example_lists initial_state_def)
qed

text \<open>
  Claim C10. While the stored signature is the empty string of the initial state, no
  cycle sets \<open>hasNewData\<close>: after the cycle the flag is true only if it was true before.
\<close>

theorem first_cycle_never_sets_flag:
  "lastDataHash s = [] \<Longrightarrow>
     hasNewData (fst (fetchAllEarthquakeData silent env s)) \<longrightarrow> hasNewData s"
  by (auto simp: fetchAllEarthquakeData_def try_block_def Let_def
           split: fetched.splits sum.splits option.splits if_splits)

text \<open>
  The first cycle of a session, in the background: it stores a signature that is not
  empty, and the flag stays false.
\<close>

theorem first_cycle_never_sets_flag_witness:
  "lastDataHash initial_state = [] \<and>
   lastDataHash (fst (fetchAllEarthquakeData True (example_input example_event) initial_state)) \<noteq> [] \<and>
   \<not> hasNewData (fst (fetchAllEarthquakeData True (example_input example_event) initial_state))"
proof -
  have h: "generateDataHash (parseXMLData example_event)
      (fetch_list (recentResponse (example_input example_event)))
      (fetch_list (feltResponse (example_input example_event))) = Inr example_signature"
    using example_hash by (simp add: example_lists parseXMLData_example)
  have "lastDataHash (fst (fetchAllEarthquakeData True (example_input example_event) initial_state)) \<noteq> []"
    using cycle_commit [of "example_input example_event" example_event example_signature True
        initial_state] h example_signature_neq(1)
    by (simp add: example_lists)
  then show ?thesis
    using first_cycle_never_sets_flag [of initial_state True "example_input example_event"]
    by (simp add: initial_state_def)
qed

section \<open>The timer: properties\<close>

text \<open>
  Claim C9, as the program has it. Switching \<open>autoUpdate\<close> off clears the pending timer
  and sets none; switching it on sets a timer of 30000 ms, whose tick is a silent fetch.
  Either switch also starts one fetch at once, a foreground one: the effect that owns the
  timer begins with \<open>fetchAllEarthquakeData()\<close>.
\<close>

theorem toggle_autoUpdate_effect:
  "fst (toggle_autoUpdate au) = (\<not> au) \<and>
   timer_after t (snd (toggle_autoUpdate au)) = (if au then None else Some 30000) \<and>
   interval_tick (timer_after t (snd (toggle_autoUpdate au))) = (if au then [] else [CallFetch True]) \<and>
   fetches_of (snd (toggle_autoUpdate au)) = [False]"
  by (simp add: toggle_autoUpdate_def effect_cleanup_def effect_body_def interval_tick_def)

text \<open>
  Claim C9, as the specification has it, asks for no fetch at the switch. Switching
  \<open>autoUpdate\<close> back on starts a foreground fetch at once.
\<close>

theorem toggle_autoUpdate_fetches_at_once:
  "fst (toggle_autoUpdate False) = True \<and> fetches_of (snd (toggle_autoUpdate False)) \<noteq> []"
  by (simp add: toggle_autoUpdate_def effect_cleanup_def effect_body_def)

end
